theory Spec2Isabelle
  imports Complex_Main "HOL-Library.Multiset" "HOL-Library.List_Lexorder" "HOL-Library.Char_ord"
begin

section \<open>Data model\<close>

text \<open>
  The rows of the four tables, as \<^verbatim>\<open>database.types.ts\<close> declares them. Identifiers, dates and
  timestamps are strings, as in the TypeScript code; ISO dates and timestamps are compared as
  strings (lexicographically), which is how \<^verbatim>\<open>payment.payment_date > existing.lastDate\<close>
  compares them and agrees with the order of calendar dates on well-formed values.
  The columns holding amounts and hours are decimals of the store, exact rationals here. The
  code receives them as TypeScript numbers, which are doubles: the nearest double to a decimal
  is \<open>double\<close> of it (below), and every sum, product and difference of the code is rounded
  the same way. Day counters, which the code only ever increments from zero, are natural
  numbers (exact in the code below \<open>2 ^ 53\<close> records).
\<close>

datatype attendance_status = Present | Absent | HalfDay

datatype period_type = Daily | Weekly | Monthly

datatype payment_method = Cash | Bank | Cheque

record employee =
  e_id :: string
  e_name :: string
  e_email :: string
  e_phone :: "string option"
  e_position :: "string option"
  daily_wage :: rat
  overtime_rate :: rat
  half_day_rate :: rat
  is_active :: bool
  e_created_at :: string
  e_updated_at :: string

record attendance =
  a_id :: string
  a_employee_id :: string
  a_date :: string
  a_status :: attendance_status
  overtime_hours :: rat
  advance_taken :: rat
  a_notes :: "string option"
  a_created_at :: string
  a_updated_at :: string

record wage_calculation =
  w_id :: string
  w_employee_id :: string
  period_start :: string
  period_end :: string
  w_period_type :: period_type
  present_days :: nat
  half_days :: nat
  absent_days :: nat
  total_overtime_hours :: rat
  base_wage :: rat
  overtime_amount :: rat
  half_day_amount :: rat
  total_advances :: rat
  gross_amount :: rat
  net_amount :: rat
  is_paid :: bool
  w_created_at :: string
  w_updated_at :: string

record payment =
  p_id :: string
  wage_calculation_id :: string
  p_employee_id :: string
  amount :: rat
  payment_date :: string
  p_payment_method :: "payment_method option"
  p_notes :: "string option"
  p_created_at :: string

text \<open>The persistence store: one list of rows per table.\<close>

record store =
  employees :: "employee list"
  attendance_rows :: "attendance list"
  wage_calculations :: "wage_calculation list"
  payments :: "payment list"

section \<open>The numbers of the code\<close>

text \<open>
  A JavaScript number is an IEEE 754 double: 53 significant bits, results rounded to the
  nearest representable value, ties to the even significand. \<open>double x\<close> is the double nearest
  to the rational \<open>x\<close>; the doubles are the rationals it leaves unchanged. \<open>binade x\<close> is the
  exponent \<open>e\<close> with \<open>2 ^ e \<le> x < 2 ^ (e + 1)\<close>, and the spacing of the doubles there is
  \<open>2 ^ (e - 52)\<close>, with the exponent held at -1022 for the subnormal numbers. Magnitudes from
  \<open>2 ^ 1024\<close> on, where the code's numbers become Infinity, are outside this function; the
  amounts and hours of the store are columns of at most ten digits.
\<close>

function bit_length :: "int \<Rightarrow> int" where
  "bit_length k = (if k \<le> 0 then 0 else 1 + bit_length (k div 2))"
  by pat_completeness auto
termination
  by (relation "measure nat") auto

declare bit_length.simps [simp del]

definition pow2 :: "int \<Rightarrow> rat" where
  "pow2 k = (if 0 \<le> k then 2 ^ nat k else 1 / 2 ^ nat (- k))"

definition binade :: "rat \<Rightarrow> int" where
  "binade x = (if 1 \<le> x then bit_length \<lfloor>x\<rfloor> - 1 else - bit_length (\<lceil>1 / x\<rceil> - 1))"

definition round_half_even :: "rat \<Rightarrow> int" where
  "round_half_even y =
     (let f = \<lfloor>y\<rfloor>; d = y - of_int f
      in if d < 1 / 2 then f else if 1 / 2 < d then f + 1 else if even f then f else f + 1)"

definition double :: "rat \<Rightarrow> rat" where
  "double x =
     (if x = 0 then 0
      else let q = pow2 (max (binade \<bar>x\<bar>) (- 1022) - 52)
           in of_int (round_half_even (x / q)) * q)"

section \<open>Wage calculation (WagesModule.tsx)\<close>

record CalculationBreakdown =
  presentDays :: nat
  halfDays :: nat
  absentDays :: nat
  totalOvertimeHours :: rat
  baseWage :: rat
  overtimeAmount :: rat
  halfDayAmount :: rat
  totalAdvances :: rat
  grossAmount :: rat
  netAmount :: rat

text \<open>
  The five running totals of \<^verbatim>\<open>calculateWages\<close> (lines 140-144) and the body of its
  \<^verbatim>\<open>forEach\<close> (lines 146-152): an if / else-if chain over the status, with no final else,
  followed by the two unconditional additions.
\<close>

record tally =
  t_presentDays :: nat
  t_halfDays :: nat
  t_absentDays :: nat
  t_totalOvertimeHours :: rat
  t_totalAdvances :: rat

definition tally0 :: tally where
  "tally0 = \<lparr>t_presentDays = 0, t_halfDays = 0, t_absentDays = 0,
             t_totalOvertimeHours = 0, t_totalAdvances = 0\<rparr>"

definition tally_record :: "tally \<Rightarrow> attendance \<Rightarrow> tally" where
  "tally_record t r =
     (let t1 = (if a_status r = Present then t\<lparr>t_presentDays := t_presentDays t + 1\<rparr>
                else if a_status r = HalfDay then t\<lparr>t_halfDays := t_halfDays t + 1\<rparr>
                else if a_status r = Absent then t\<lparr>t_absentDays := t_absentDays t + 1\<rparr>
                else t)
      in t1\<lparr>t_totalOvertimeHours := t_totalOvertimeHours t1 + overtime_hours r,
             t_totalAdvances := t_totalAdvances t1 + advance_taken r\<rparr>)"

fun tally_records :: "tally \<Rightarrow> attendance list \<Rightarrow> tally" where
  "tally_records t [] = t"
| "tally_records t (r # rs) = tally_records (tally_record t r) rs"

text \<open>Lines 140-171: the totals, then the five amounts, then the breakdown object.\<close>

definition computeBreakdown :: "employee \<Rightarrow> attendance list \<Rightarrow> CalculationBreakdown" where
  "computeBreakdown emp attendanceRecords =
     (let t = tally_records tally0 attendanceRecords;
          baseWage = of_nat (t_presentDays t) * daily_wage emp;
          halfDayAmount = of_nat (t_halfDays t) * half_day_rate emp;
          overtimeAmount = t_totalOvertimeHours t * overtime_rate emp;
          grossAmount = baseWage + halfDayAmount + overtimeAmount;
          netAmount = grossAmount - t_totalAdvances t
      in \<lparr>presentDays = t_presentDays t,
          halfDays = t_halfDays t,
          absentDays = t_absentDays t,
          totalOvertimeHours = t_totalOvertimeHours t,
          baseWage = baseWage,
          overtimeAmount = overtimeAmount,
          halfDayAmount = halfDayAmount,
          totalAdvances = t_totalAdvances t,
          grossAmount = grossAmount,
          netAmount = netAmount\<rparr>)"

text \<open>
  \<open>computeBreakdown\<close> above adds and multiplies the decimals exactly. The code computes with
  doubles: each column it reads arrives as the nearest double, and each \<^verbatim>\<open>+=\<close>, \<^verbatim>\<open>*\<close>, \<^verbatim>\<open>+\<close> and
  \<^verbatim>\<open>-\<close> of lines 150-158 rounds its result. The same loop and the same five amounts, with
  that rounding:
\<close>

definition tally_record_double :: "tally \<Rightarrow> attendance \<Rightarrow> tally" where
  "tally_record_double t r =
     (let t1 = (if a_status r = Present then t\<lparr>t_presentDays := t_presentDays t + 1\<rparr>
                else if a_status r = HalfDay then t\<lparr>t_halfDays := t_halfDays t + 1\<rparr>
                else if a_status r = Absent then t\<lparr>t_absentDays := t_absentDays t + 1\<rparr>
                else t)
      in t1\<lparr>t_totalOvertimeHours :=
               double (t_totalOvertimeHours t1 + double (overtime_hours r)),
             t_totalAdvances := double (t_totalAdvances t1 + double (advance_taken r))\<rparr>)"

fun tally_records_double :: "tally \<Rightarrow> attendance list \<Rightarrow> tally" where
  "tally_records_double t [] = t"
| "tally_records_double t (r # rs) = tally_records_double (tally_record_double t r) rs"

definition computeBreakdown_double :: "employee \<Rightarrow> attendance list \<Rightarrow> CalculationBreakdown" where
  "computeBreakdown_double emp attendanceRecords =
     (let t = tally_records_double tally0 attendanceRecords;
          baseWage = double (of_nat (t_presentDays t) * double (daily_wage emp));
          halfDayAmount = double (of_nat (t_halfDays t) * double (half_day_rate emp));
          overtimeAmount = double (t_totalOvertimeHours t * double (overtime_rate emp));
          grossAmount = double (double (baseWage + halfDayAmount) + overtimeAmount);
          netAmount = double (grossAmount - t_totalAdvances t)
      in \<lparr>presentDays = t_presentDays t,
          halfDays = t_halfDays t,
          absentDays = t_absentDays t,
          totalOvertimeHours = t_totalOvertimeHours t,
          baseWage = baseWage,
          overtimeAmount = overtimeAmount,
          halfDayAmount = halfDayAmount,
          totalAdvances = t_totalAdvances t,
          grossAmount = grossAmount,
          netAmount = netAmount\<rparr>)"

subsection \<open>The store's side of the requests\<close>

text \<open>
  \<^verbatim>\<open>.single()\<close> and \<^verbatim>\<open>.maybeSingle()\<close> yield a row only when exactly one row matches; the code
  reads only \<^verbatim>\<open>data\<close> from them, which is null otherwise.
\<close>

definition single :: "'a list \<Rightarrow> 'a option" where
  "single xs = (case xs of [x] \<Rightarrow> Some x | _ \<Rightarrow> None)"

text \<open>
  An insert is accepted when the request reaches the store (\<open>ok\<close>) and the constraints of the
  schema hold: primary key, foreign keys, and for attendance the uniqueness of
  (employee_id, date). A rejected write leaves the store as it was. The row handed to an insert
  already carries the columns the store fills by default (id, created_at, updated_at).
\<close>

definition insert_wage_calculation :: "bool \<Rightarrow> wage_calculation \<Rightarrow> store \<Rightarrow> store option" where
  "insert_wage_calculation ok row st =
     (if ok \<and> w_id row \<notin> set (map w_id (wage_calculations st))
            \<and> w_employee_id row \<in> set (map e_id (employees st))
      then Some (st\<lparr>wage_calculations := wage_calculations st @ [row]\<rparr>)
      else None)"

definition insert_payment :: "bool \<Rightarrow> payment \<Rightarrow> store \<Rightarrow> store option" where
  "insert_payment ok row st =
     (if ok \<and> p_id row \<notin> set (map p_id (payments st))
            \<and> wage_calculation_id row \<in> set (map w_id (wage_calculations st))
            \<and> p_employee_id row \<in> set (map e_id (employees st))
      then Some (st\<lparr>payments := payments st @ [row]\<rparr>)
      else None)"


subsection \<open>The component's state and its alerts\<close>

text \<open>
  The React state of \<^verbatim>\<open>WagesModule\<close> that the modelled functions read or set. The flags
  \<^verbatim>\<open>loading\<close> and \<^verbatim>\<open>calculating\<close> only drive the display and are left out.
\<close>

record WagesModule =
  wm_employees :: "employee list"
  wm_selectedEmployee :: string
  wm_periodType :: period_type
  wm_startDate :: string
  wm_endDate :: string
  wm_breakdown :: "CalculationBreakdown option"
  wm_calculations :: "wage_calculation list"

datatype wages_alert =
    PleaseSelectEmployeeAndDateRange
  | EmployeeNotFound
  | WageCalculationCompleted
  | ErrorCalculatingWages
  | MarkedAsPaid
  | ErrorMarkingAsPaid

text \<open>
  \<^verbatim>\<open>fetchCalculations\<close> (lines 92-110): the twenty newest calculations, of the selected employee
  when one is selected. On an error the list on screen stays as it is. Rows with equal
  \<^verbatim>\<open>created_at\<close> come in an order the store chooses; the model takes the reverse of a stable
  ascending sort.
\<close>

definition fetchCalculations :: "bool \<Rightarrow> WagesModule \<Rightarrow> store \<Rightarrow> WagesModule" where
  "fetchCalculations query_ok ui st =
     (if query_ok
      then ui\<lparr>wm_calculations :=
                take 20 (rev (sort_key w_created_at
                  (filter (\<lambda>c. wm_selectedEmployee ui = [] \<or> w_employee_id c = wm_selectedEmployee ui)
                     (wage_calculations st))))\<rparr>
      else ui)"

subsection \<open>calculateWages\<close>

text \<open>
  What the outside world contributes to one run of \<^verbatim>\<open>calculateWages\<close>: whether each of its
  requests succeeds, the identifier and timestamp the store gives the new row, and whether
  the reload of the list succeeds.
\<close>

record calc_env =
  cw_employee_query_ok :: bool
  cw_attendance_query_ok :: bool
  cw_insert_ok :: bool
  cw_reload_ok :: bool
  cw_new_id :: string
  cw_db_now :: string

definition attendance_in_range :: "string \<Rightarrow> string \<Rightarrow> string \<Rightarrow> store \<Rightarrow> attendance list" where
  "attendance_in_range employeeId startDate endDate st =
     filter (\<lambda>r. a_employee_id r = employeeId \<and> startDate \<le> a_date r \<and> a_date r \<le> endDate)
       (attendance_rows st)"

text \<open>
  The row of lines 175-191, with the identifier and the timestamps the store fills in.
\<close>

definition wageCalculation_of :: "calc_env \<Rightarrow> WagesModule \<Rightarrow> CalculationBreakdown \<Rightarrow> wage_calculation" where
  "wageCalculation_of env ui b =
     \<lparr>w_id = cw_new_id env,
      w_employee_id = wm_selectedEmployee ui,
      period_start = wm_startDate ui,
      period_end = wm_endDate ui,
      w_period_type = wm_periodType ui,
      present_days = presentDays b,
      half_days = halfDays b,
      absent_days = absentDays b,
      total_overtime_hours = totalOvertimeHours b,
      base_wage = baseWage b,
      overtime_amount = overtimeAmount b,
      half_day_amount = halfDayAmount b,
      total_advances = totalAdvances b,
      gross_amount = grossAmount b,
      net_amount = netAmount b,
      is_paid = False,
      w_created_at = cw_db_now env,
      w_updated_at = cw_db_now env\<rparr>"

text \<open>
  Lines 112-207. The first guard returns before anything is read; an employee that does not
  resolve (or whose request fails: only \<^verbatim>\<open>data\<close> is read) ends the run with a message; a
  failed attendance request or a rejected insert is caught and reported as an error. The
  breakdown is shown before the insert, so it stays on screen when the insert fails.
\<close>

definition calculateWages :: "calc_env \<Rightarrow> WagesModule \<Rightarrow> store \<Rightarrow> wages_alert \<times> WagesModule \<times> store" where
  "calculateWages env ui st =
     (if wm_selectedEmployee ui = [] \<or> wm_startDate ui = [] \<or> wm_endDate ui = []
      then (PleaseSelectEmployeeAndDateRange, ui, st)
      else
        case (if cw_employee_query_ok env
              then single (filter (\<lambda>e. e_id e = wm_selectedEmployee ui) (employees st))
              else None) of
          None \<Rightarrow> (EmployeeNotFound, ui, st)
        | Some emp \<Rightarrow>
            if \<not> cw_attendance_query_ok env then (ErrorCalculatingWages, ui, st)
            else
              let attendanceRecords =
                    attendance_in_range (wm_selectedEmployee ui) (wm_startDate ui) (wm_endDate ui) st;
                  b = computeBreakdown_double emp attendanceRecords;
                  ui1 = ui\<lparr>wm_breakdown := Some b\<rparr>
              in (case insert_wage_calculation (cw_insert_ok env) (wageCalculation_of env ui b) st of
                    None \<Rightarrow> (ErrorCalculatingWages, ui1, st)
                  | Some st1 \<Rightarrow>
                      (WageCalculationCompleted, fetchCalculations (cw_reload_ok env) ui1 st1, st1)))"

definition zero_breakdown :: CalculationBreakdown where
  "zero_breakdown =
     \<lparr>presentDays = 0, halfDays = 0, absentDays = 0, totalOvertimeHours = 0,
      baseWage = 0, overtimeAmount = 0, halfDayAmount = 0, totalAdvances = 0,
      grossAmount = 0, netAmount = 0\<rparr>"

subsection \<open>markAsPaid\<close>

text \<open>
  The outside world of one run of \<^verbatim>\<open>markAsPaid\<close>: the answer to \<^verbatim>\<open>confirm\<close>, the fate of its
  two writes and of the reload, the two readings of the client's clock (lines 215 and 227),
  and the identifier and timestamp the store gives the payment.
\<close>

record mark_env =
  mp_confirm :: bool
  mp_update_ok :: bool
  mp_insert_ok :: bool
  mp_reload_ok :: bool
  mp_now_update :: string
  mp_now_insert :: string
  mp_new_id :: string
  mp_db_now :: string

definition period_type_str :: "period_type \<Rightarrow> string" where
  "period_type_str t = (case t of Daily \<Rightarrow> ''daily'' | Weekly \<Rightarrow> ''weekly'' | Monthly \<Rightarrow> ''monthly'')"

text \<open>\<^verbatim>\<open>new Date().toISOString().split('T')[0]\<close>: the timestamp up to its first \<^verbatim>\<open>T\<close>.\<close>

definition iso_date :: "string \<Rightarrow> string" where
  "iso_date ts = takeWhile (\<lambda>c. c \<noteq> CHR ''T'') ts"

definition set_paid :: "string \<Rightarrow> string \<Rightarrow> store \<Rightarrow> store" where
  "set_paid calculationId now st =
     st\<lparr>wage_calculations :=
          map (\<lambda>c. if w_id c = calculationId then c\<lparr>is_paid := True, w_updated_at := now\<rparr> else c)
            (wage_calculations st)\<rparr>"

definition payment_for :: "mark_env \<Rightarrow> string \<Rightarrow> wage_calculation \<Rightarrow> payment" where
  "payment_for env calculationId calculation =
     \<lparr>p_id = mp_new_id env,
      wage_calculation_id = calculationId,
      p_employee_id = w_employee_id calculation,
      amount = net_amount calculation,
      payment_date = iso_date (mp_now_insert env),
      p_payment_method = Some Cash,
      p_notes = Some (''Payment for '' @ period_type_str (w_period_type calculation)
                      @ '' period: '' @ period_start calculation
                      @ '' to '' @ period_end calculation),
      p_created_at = mp_db_now env\<rparr>"

text \<open>
  Lines 209-242. An update that matches no row is not an error for the store, and the
  calculation whose amount is paid is looked up in the list on screen, not in the store; when
  it is not there, no payment is inserted and the success message is shown all the same.
\<close>

definition markAsPaid :: "mark_env \<Rightarrow> string \<Rightarrow> WagesModule \<Rightarrow> store \<Rightarrow> wages_alert option \<times> WagesModule \<times> store" where
  "markAsPaid env calculationId ui st =
     (if \<not> mp_confirm env then (None, ui, st)
      else if \<not> mp_update_ok env then (Some ErrorMarkingAsPaid, ui, st)
      else
        let st1 = set_paid calculationId (mp_now_update env) st in
        case find (\<lambda>c. w_id c = calculationId) (wm_calculations ui) of
          None \<Rightarrow> (Some MarkedAsPaid, fetchCalculations (mp_reload_ok env) ui st1, st1)
        | Some calculation \<Rightarrow>
            (case insert_payment (mp_insert_ok env) (payment_for env calculationId calculation) st1 of
               None \<Rightarrow> (Some ErrorMarkingAsPaid, ui, st1)
             | Some st2 \<Rightarrow> (Some MarkedAsPaid, fetchCalculations (mp_reload_ok env) ui st2, st2)))"

text \<open>
  The table offers the action only on the rows of the list on screen whose \<^verbatim>\<open>is_paid\<close> is
  false (lines 486-493).
\<close>

definition mark_offered :: "WagesModule \<Rightarrow> string \<Rightarrow> bool" where
  "mark_offered ui calculationId =
     (\<exists>c \<in> set (wm_calculations ui). w_id c = calculationId \<and> \<not> is_paid c)"

text \<open>The payments of one calculation, and two runs of \<^verbatim>\<open>markAsPaid\<close> one after the other.\<close>

definition payments_of :: "string \<Rightarrow> store \<Rightarrow> payment list" where
  "payments_of calculationId st = filter (\<lambda>p. wage_calculation_id p = calculationId) (payments st)"

definition markAsPaid_twice :: "mark_env \<Rightarrow> mark_env \<Rightarrow> string \<Rightarrow> WagesModule \<Rightarrow> store \<Rightarrow> wages_alert option \<times> WagesModule \<times> store" where
  "markAsPaid_twice env1 env2 calculationId ui st =
     (case markAsPaid env1 calculationId ui st of
        (alert1, ui1, st1) \<Rightarrow> markAsPaid env2 calculationId ui1 st1)"

section \<open>Marking attendance (AttendanceModule.tsx)\<close>














section \<open>Payment reports (ReportModule.tsx)\<close>

text \<open>
  A payment joined with its employee and its calculation; the store yields null for an
  embedded row that does not exist.
\<close>

record PaymentReport = payment +
  pr_employee :: "employee option"
  pr_calculation :: "wage_calculation option"

record EmployeeSummary =
  es_employee :: employee
  totalPayments :: rat
  paymentCount :: nat
  lastPaymentDate :: "string option"



definition join_payment :: "store \<Rightarrow> payment \<Rightarrow> PaymentReport" where
  "join_payment st p =
     payment.extend p
       (PaymentReport.fields
          (find (\<lambda>e. e_id e = p_employee_id p) (employees st))
          (find (\<lambda>c. w_id c = wage_calculation_id p) (wage_calculations st)))"



text \<open>
  The entries of \<^verbatim>\<open>summaryMap\<close> (its \<^verbatim>\<open>total\<close> and \<^verbatim>\<open>count\<close> are \<open>entry_total\<close> and
  \<open>entry_count\<close> here) and the body of the loop of lines 104-116.
\<close>

record summary_entry =
  entry_total :: rat
  entry_count :: nat
  lastDate :: string



text \<open>
  Lines 118-127: one summary per employee of the component's list, with
  \<^verbatim>\<open>summary?.total || 0\<close>, \<^verbatim>\<open>summary?.count || 0\<close> and \<^verbatim>\<open>summary?.lastDate || null\<close>.
\<close>

definition summary_of :: "(string \<rightharpoonup> summary_entry) \<Rightarrow> employee \<Rightarrow> EmployeeSummary" where
  "summary_of summaryMap emp =
     \<lparr>es_employee = emp,
      totalPayments = (case summaryMap (e_id emp) of
                         None \<Rightarrow> 0 | Some s \<Rightarrow> if entry_total s = 0 then 0 else entry_total s),
      paymentCount = (case summaryMap (e_id emp) of
                        None \<Rightarrow> 0 | Some s \<Rightarrow> if entry_count s = 0 then 0 else entry_count s),
      lastPaymentDate = (case summaryMap (e_id emp) of
                           None \<Rightarrow> None | Some s \<Rightarrow> if lastDate s = [] then None else Some (lastDate s))\<rparr>"



section \<open>A worked example\<close>

text \<open>
  The scenario of the specification: daily wage 100, overtime rate 20, half-day rate 50; a
  week with three days present, one half day and one day absent, two overtime hours on one
  day and an advance of 30 on another.
\<close>

definition ex_employee :: employee where
  "ex_employee =
     \<lparr>e_id = ''e1'', e_name = ''Ann'', e_email = ''ann@example.org'', e_phone = None,
      e_position = None, daily_wage = 100, overtime_rate = 20, half_day_rate = 50,
      is_active = True, e_created_at = ''2025-01-01T08:00:00.000Z'',
      e_updated_at = ''2025-01-01T08:00:00.000Z''\<rparr>"

definition ex_day :: "string \<Rightarrow> string \<Rightarrow> attendance_status \<Rightarrow> rat \<Rightarrow> rat \<Rightarrow> attendance" where
  "ex_day rowId date status hours advance =
     \<lparr>a_id = rowId, a_employee_id = ''e1'', a_date = date, a_status = status,
      overtime_hours = hours, advance_taken = advance, a_notes = Some [],
      a_created_at = date @ ''T18:00:00.000Z'', a_updated_at = date @ ''T18:00:00.000Z''\<rparr>"

definition ex_attendance :: "attendance list" where
  "ex_attendance =
     [ex_day ''a1'' ''2025-01-06'' Present 2 0,
      ex_day ''a2'' ''2025-01-07'' Present 0 30,
      ex_day ''a3'' ''2025-01-08'' Present 0 0,
      ex_day ''a4'' ''2025-01-09'' HalfDay 0 0,
      ex_day ''a5'' ''2025-01-10'' Absent 0 0]"

definition ex_calculation :: wage_calculation where
  "ex_calculation =
     \<lparr>w_id = ''c1'', w_employee_id = ''e1'', period_start = ''2025-01-06'',
      period_end = ''2025-01-10'', w_period_type = Weekly, present_days = 3, half_days = 1,
      absent_days = 1, total_overtime_hours = 2, base_wage = 300, overtime_amount = 40,
      half_day_amount = 50, total_advances = 30, gross_amount = 390, net_amount = 360,
      is_paid = False, w_created_at = ''2025-01-11T09:00:00.000Z'',
      w_updated_at = ''2025-01-11T09:00:00.000Z''\<rparr>"

definition ex_store :: store where
  "ex_store =
     \<lparr>employees = [ex_employee], attendance_rows = ex_attendance,
      wage_calculations = [ex_calculation], payments = []\<rparr>"

definition ex_wages :: "string \<Rightarrow> string \<Rightarrow> string \<Rightarrow> WagesModule" where
  "ex_wages employeeId startDate endDate =
     \<lparr>wm_employees = [ex_employee], wm_selectedEmployee = employeeId, wm_periodType = Weekly,
      wm_startDate = startDate, wm_endDate = endDate, wm_breakdown = None,
      wm_calculations = [ex_calculation]\<rparr>"

definition ex_calc_env :: calc_env where
  "ex_calc_env =
     \<lparr>cw_employee_query_ok = True, cw_attendance_query_ok = True, cw_insert_ok = True,
      cw_reload_ok = True, cw_new_id = ''c2'', cw_db_now = ''2025-01-12T09:00:00.000Z''\<rparr>"

definition ex_mark_env :: "bool \<Rightarrow> bool \<Rightarrow> string \<Rightarrow> mark_env" where
  "ex_mark_env insert_ok reload_ok paymentId =
     \<lparr>mp_confirm = True, mp_update_ok = True, mp_insert_ok = insert_ok,
      mp_reload_ok = reload_ok, mp_now_update = ''2025-01-12T10:00:00.000Z'',
      mp_now_insert = ''2025-01-12T10:00:01.000Z'', mp_new_id = paymentId,
      mp_db_now = ''2025-01-12T10:00:02.000Z''\<rparr>"







text \<open>Two days with a tenth and two tenths of an hour and of an advance.\<close>

definition ex_tenths :: "attendance list" where
  "ex_tenths =
     [ex_day ''b1'' ''2025-01-06'' Present (1 / 10) (1 / 10),
      ex_day ''b2'' ''2025-01-07'' Present (2 / 10) (2 / 10)]"

text \<open>A second stored calculation, for a month, and the list on screen holding both.\<close>

definition ex_monthly :: wage_calculation where
  "ex_monthly =
     ex_calculation\<lparr>w_id := ''c3'', period_start := ''2025-01-01'',
       period_end := ''2025-01-31'', w_period_type := Monthly,
       w_created_at := ''2025-02-01T09:00:00.000Z'',
       w_updated_at := ''2025-02-01T09:00:00.000Z''\<rparr>"

definition ex_store_monthly :: store where
  "ex_store_monthly = ex_store\<lparr>wage_calculations := [ex_calculation, ex_monthly]\<rparr>"

definition ex_wages_monthly :: WagesModule where
  "ex_wages_monthly =
     (ex_wages ''e1'' ''2025-01-06'' ''2025-01-10'')\<lparr>wm_calculations := [ex_monthly, ex_calculation]\<rparr>"

section \<open>Properties of the tally\<close>

lemma tally_records_presentDays:
  "t_presentDays (tally_records t rs) =
     t_presentDays t + length (filter (\<lambda>r. a_status r = Present) rs)"
  by (induction rs arbitrary: t) (simp_all add: tally_record_def Let_def)

lemma tally_records_halfDays:
  "t_halfDays (tally_records t rs) =
     t_halfDays t + length (filter (\<lambda>r. a_status r = HalfDay) rs)"
  by (induction rs arbitrary: t) (simp_all add: tally_record_def Let_def)

lemma tally_records_absentDays:
  "t_absentDays (tally_records t rs) =
     t_absentDays t + length (filter (\<lambda>r. a_status r = Absent) rs)"
  by (induction rs arbitrary: t) (simp_all add: tally_record_def Let_def)

lemma tally_records_overtime:
  "t_totalOvertimeHours (tally_records t rs) =
     t_totalOvertimeHours t + sum_list (map overtime_hours rs)"
  by (induction rs arbitrary: t) (simp_all add: tally_record_def Let_def)

lemma tally_records_advances:
  "t_totalAdvances (tally_records t rs) =
     t_totalAdvances t + sum_list (map advance_taken rs)"
  by (induction rs arbitrary: t) (simp_all add: tally_record_def Let_def)


section \<open>The breakdown\<close>

lemma computeBreakdown_fields:
  "presentDays (computeBreakdown emp rs) = length (filter (\<lambda>r. a_status r = Present) rs)"
  "halfDays (computeBreakdown emp rs) = length (filter (\<lambda>r. a_status r = HalfDay) rs)"
  "absentDays (computeBreakdown emp rs) = length (filter (\<lambda>r. a_status r = Absent) rs)"
  "totalOvertimeHours (computeBreakdown emp rs) = sum_list (map overtime_hours rs)"
  "totalAdvances (computeBreakdown emp rs) = sum_list (map advance_taken rs)"
  by (simp_all add: computeBreakdown_def Let_def tally0_def tally_records_presentDays
      tally_records_halfDays tally_records_absentDays tally_records_overtime
      tally_records_advances)

lemma computeBreakdown_Nil: "computeBreakdown emp [] = zero_breakdown"
  by (simp add: computeBreakdown_def Let_def tally0_def zero_breakdown_def)

lemma double_0 [simp]: "double 0 = 0"
  by (simp add: double_def)

lemma computeBreakdown_double_Nil: "computeBreakdown_double emp [] = zero_breakdown"
  by (simp add: computeBreakdown_double_def Let_def tally0_def zero_breakdown_def)

lemma ex_breakdown:
  "computeBreakdown ex_employee ex_attendance =
     \<lparr>presentDays = 3, halfDays = 1, absentDays = 1, totalOvertimeHours = 2,
      baseWage = 300, overtimeAmount = 40, halfDayAmount = 50, totalAdvances = 30,
      grossAmount = 390, netAmount = 360\<rparr>"
  by (simp add: computeBreakdown_def Let_def tally0_def tally_record_def ex_employee_def
      ex_attendance_def ex_day_def)


section \<open>The breakdown in the numbers of the code\<close>

lemma tally_records_double_counts:
  "t_presentDays (tally_records_double t rs) =
     t_presentDays t + length (filter (\<lambda>r. a_status r = Present) rs)"
  "t_halfDays (tally_records_double t rs) =
     t_halfDays t + length (filter (\<lambda>r. a_status r = HalfDay) rs)"
  "t_absentDays (tally_records_double t rs) =
     t_absentDays t + length (filter (\<lambda>r. a_status r = Absent) rs)"
  by (induction rs arbitrary: t; simp add: tally_record_double_def Let_def)+

text \<open>The rounding does not touch the day counters: they are those of the exact tally.\<close>

lemma computeBreakdown_double_counts:
  "presentDays (computeBreakdown_double emp rs) = presentDays (computeBreakdown emp rs)"
  "halfDays (computeBreakdown_double emp rs) = halfDays (computeBreakdown emp rs)"
  "absentDays (computeBreakdown_double emp rs) = absentDays (computeBreakdown emp rs)"
  by (simp_all add: computeBreakdown_double_def Let_def tally_records_double_counts
      computeBreakdown_fields tally0_def)

text \<open>The scenario of the specification comes out the same in doubles: every value is whole.\<close>

lemma ex_breakdown_double:
  "computeBreakdown_double ex_employee ex_attendance =
     \<lparr>presentDays = 3, halfDays = 1, absentDays = 1, totalOvertimeHours = 2,
      baseWage = 300, overtimeAmount = 40, halfDayAmount = 50, totalAdvances = 30,
      grossAmount = 390, netAmount = 360\<rparr>"
  by code_simp

lemma ex_tenths_breakdown:
  "computeBreakdown_double ex_employee ex_tenths =
     \<lparr>presentDays = 2, halfDays = 0, absentDays = 0,
      totalOvertimeHours = 1351079888211149 / 4503599627370496,
      baseWage = 200, overtimeAmount = 6755399441055745 / 1125899906842624,
      halfDayAmount = 0, totalAdvances = 1351079888211149 / 4503599627370496,
      grossAmount = 206, netAmount = 3618712669336371 / 17592186044416\<rparr>"
  by code_simp

lemma negative_net_double:
  "netAmount (computeBreakdown_double ex_employee [ex_day ''a2'' ''2025-01-07'' Absent 0 30])
     = - 30"
  by code_simp

text \<open>
  C1, as amended. For every employee and every list of attendance records, the breakdown the
  code computes satisfies the five equations with each product, sum and difference rounded
  to the nearest double, on the doubles it holds for the rates: base wage = present days
  times daily wage, half-day amount = half days times half-day rate, overtime amount = total
  overtime hours times overtime rate, gross = (base + half-day) + overtime, and net = gross -
  total advances. Nothing clamps the net amount: there are inputs on which it is negative.
\<close>

theorem computeBreakdown_double_amounts:
  "baseWage (computeBreakdown_double emp rs)
     = double (of_nat (presentDays (computeBreakdown_double emp rs)) * double (daily_wage emp))
   \<and> halfDayAmount (computeBreakdown_double emp rs)
       = double (of_nat (halfDays (computeBreakdown_double emp rs)) * double (half_day_rate emp))
   \<and> overtimeAmount (computeBreakdown_double emp rs)
       = double (totalOvertimeHours (computeBreakdown_double emp rs) * double (overtime_rate emp))
   \<and> grossAmount (computeBreakdown_double emp rs)
       = double (double (baseWage (computeBreakdown_double emp rs)
                         + halfDayAmount (computeBreakdown_double emp rs))
                 + overtimeAmount (computeBreakdown_double emp rs))
   \<and> netAmount (computeBreakdown_double emp rs)
       = double (grossAmount (computeBreakdown_double emp rs)
                 - totalAdvances (computeBreakdown_double emp rs))
   \<and> (\<exists>emp' rs'. netAmount (computeBreakdown_double emp' rs') < 0)"
proof -
  have "netAmount (computeBreakdown_double ex_employee
          [ex_day ''a2'' ''2025-01-07'' Absent 0 30]) < 0"
    by (simp add: negative_net_double)
  then have "\<exists>emp' rs'. netAmount (computeBreakdown_double emp' rs') < 0"
    by blast
  then show ?thesis
    by (simp add: computeBreakdown_double_def Let_def)
qed

text \<open>
  The claim as stated fails: with a tenth and two tenths of an hour and of an advance, at
  20 an hour and 100 a day, the code holds overtime 6.000000000000001 and gross 206, which is
  not base + half-day + overtime, and net 205.7, which is not gross minus the advances it
  holds, 0.30000000000000004.
\<close>

theorem breakdown_sums_not_exact:
  "grossAmount (computeBreakdown_double ex_employee ex_tenths) = 206
   \<and> baseWage (computeBreakdown_double ex_employee ex_tenths)
       + halfDayAmount (computeBreakdown_double ex_employee ex_tenths)
       + overtimeAmount (computeBreakdown_double ex_employee ex_tenths)
      = 206 + 1 / 1125899906842624
   \<and> grossAmount (computeBreakdown_double ex_employee ex_tenths)
       \<noteq> baseWage (computeBreakdown_double ex_employee ex_tenths)
         + halfDayAmount (computeBreakdown_double ex_employee ex_tenths)
         + overtimeAmount (computeBreakdown_double ex_employee ex_tenths)
   \<and> netAmount (computeBreakdown_double ex_employee ex_tenths)
       \<noteq> grossAmount (computeBreakdown_double ex_employee ex_tenths)
         - totalAdvances (computeBreakdown_double ex_employee ex_tenths)"
  unfolding ex_tenths_breakdown by simp

section \<open>Runs of calculateWages\<close>


lemma single_Some_mem: "single xs = Some x \<Longrightarrow> x \<in> set xs"
  by (auto simp: single_def split: list.splits)

lemma calculateWages_completed:
  assumes sel: "wm_selectedEmployee ui \<noteq> []" "wm_startDate ui \<noteq> []" "wm_endDate ui \<noteq> []"
    and ok: "cw_employee_query_ok env" "cw_attendance_query_ok env" "cw_insert_ok env"
    and emp: "single (filter (\<lambda>e. e_id e = wm_selectedEmployee ui) (employees st)) = Some emp"
    and fresh: "cw_new_id env \<notin> set (map w_id (wage_calculations st))"
    and b: "b = computeBreakdown_double emp
                 (attendance_in_range (wm_selectedEmployee ui) (wm_startDate ui) (wm_endDate ui) st)"
    and st1: "st1 = st\<lparr>wage_calculations := wage_calculations st @ [wageCalculation_of env ui b]\<rparr>"
  shows "calculateWages env ui st =
           (WageCalculationCompleted,
            fetchCalculations (cw_reload_ok env) (ui\<lparr>wm_breakdown := Some b\<rparr>) st1, st1)"
proof -
  from emp have "emp \<in> set (filter (\<lambda>e. e_id e = wm_selectedEmployee ui) (employees st))"
    by (rule single_Some_mem)
  then have fk: "wm_selectedEmployee ui \<in> set (map e_id (employees st))"
    by force
  have ins: "insert_wage_calculation (cw_insert_ok env) (wageCalculation_of env ui b) st = Some st1"
    using ok(3) fresh fk by (simp add: insert_wage_calculation_def wageCalculation_of_def st1)
  show ?thesis
    using sel ok(1,2) emp ins by (simp add: calculateWages_def Let_def b [symmetric])
qed

lemma inverted_range_empty:
  "endDate < startDate \<Longrightarrow> attendance_in_range employeeId startDate endDate st = []"
  by (auto simp: attendance_in_range_def filter_empty_conv)

lemma fetchCalculations_breakdown [simp]:
  "wm_breakdown (fetchCalculations q ui st) = wm_breakdown ui"
  by (simp add: fetchCalculations_def)


text \<open>
  C7. On an empty list of attendance records the breakdown has every count and every amount
  zero, for every employee; and a run of \<^verbatim>\<open>calculateWages\<close> that finds no attendance
  record in the range succeeds and shows that breakdown.
\<close>

theorem empty_attendance_all_zero:
  "computeBreakdown emp [] =
     \<lparr>presentDays = 0, halfDays = 0, absentDays = 0, totalOvertimeHours = 0,
      baseWage = 0, overtimeAmount = 0, halfDayAmount = 0, totalAdvances = 0,
      grossAmount = 0, netAmount = 0\<rparr>
   \<and> (wm_selectedEmployee ui \<noteq> [] \<and> wm_startDate ui \<noteq> [] \<and> wm_endDate ui \<noteq> []
        \<and> cw_employee_query_ok env \<and> cw_attendance_query_ok env \<and> cw_insert_ok env
        \<and> single (filter (\<lambda>e. e_id e = wm_selectedEmployee ui) (employees st)) = Some emp'
        \<and> cw_new_id env \<notin> set (map w_id (wage_calculations st))
        \<and> attendance_in_range (wm_selectedEmployee ui) (wm_startDate ui) (wm_endDate ui) st = []
      \<longrightarrow> fst (calculateWages env ui st) = WageCalculationCompleted
          \<and> wm_breakdown (fst (snd (calculateWages env ui st))) =
              Some \<lparr>presentDays = 0, halfDays = 0, absentDays = 0, totalOvertimeHours = 0,
                    baseWage = 0, overtimeAmount = 0, halfDayAmount = 0, totalAdvances = 0,
                    grossAmount = 0, netAmount = 0\<rparr>)"
proof -
  have nil: "computeBreakdown e [] = zero_breakdown" for e
    by (rule computeBreakdown_Nil)
  have run: "fst (calculateWages env ui st) = WageCalculationCompleted
          \<and> wm_breakdown (fst (snd (calculateWages env ui st))) = Some zero_breakdown"
    if h: "wm_selectedEmployee ui \<noteq> []" "wm_startDate ui \<noteq> []" "wm_endDate ui \<noteq> []"
        "cw_employee_query_ok env" "cw_attendance_query_ok env" "cw_insert_ok env"
        "single (filter (\<lambda>e. e_id e = wm_selectedEmployee ui) (employees st)) = Some emp'"
        "cw_new_id env \<notin> set (map w_id (wage_calculations st))"
        "attendance_in_range (wm_selectedEmployee ui) (wm_startDate ui) (wm_endDate ui) st = []"
  proof -
    have "calculateWages env ui st =
           (WageCalculationCompleted,
            fetchCalculations (cw_reload_ok env) (ui\<lparr>wm_breakdown := Some zero_breakdown\<rparr>)
              (st\<lparr>wage_calculations := wage_calculations st @ [wageCalculation_of env ui zero_breakdown]\<rparr>),
            st\<lparr>wage_calculations := wage_calculations st @ [wageCalculation_of env ui zero_breakdown]\<rparr>)"
      by (rule calculateWages_completed [OF h(1-8)])
         (simp_all add: h(9) computeBreakdown_double_Nil)
    then show ?thesis by simp
  qed
  show ?thesis
    using nil run by (simp add: zero_breakdown_def)
qed

theorem empty_attendance_all_zero_witness:
  "computeBreakdown ex_employee [] =
     \<lparr>presentDays = 0, halfDays = 0, absentDays = 0, totalOvertimeHours = 0,
      baseWage = 0, overtimeAmount = 0, halfDayAmount = 0, totalAdvances = 0,
      grossAmount = 0, netAmount = 0\<rparr>
   \<and> attendance_in_range ''e1'' ''2025-02-03'' ''2025-02-07'' ex_store = []
   \<and> fst (calculateWages ex_calc_env (ex_wages ''e1'' ''2025-02-03'' ''2025-02-07'') ex_store)
       = WageCalculationCompleted
   \<and> wm_breakdown (fst (snd (calculateWages ex_calc_env
         (ex_wages ''e1'' ''2025-02-03'' ''2025-02-07'') ex_store))) =
       Some \<lparr>presentDays = 0, halfDays = 0, absentDays = 0, totalOvertimeHours = 0,
             baseWage = 0, overtimeAmount = 0, halfDayAmount = 0, totalAdvances = 0,
             grossAmount = 0, netAmount = 0\<rparr>"
  using empty_attendance_all_zero [of ex_employee "ex_wages ''e1'' ''2025-02-03'' ''2025-02-07''"
      ex_calc_env ex_store ex_employee]
  by (simp add: ex_wages_def ex_calc_env_def ex_store_def ex_employee_def ex_calculation_def
      ex_attendance_def ex_day_def attendance_in_range_def single_def)

text \<open>
  C6, as amended. \<^verbatim>\<open>calculateWages\<close> refuses with a message, computing and storing nothing,
  when no employee is selected or the start or end date is empty, and when the selected
  employee does not resolve. It makes no check that the end date does not precede the start
  date: on such a range, with the employee resolved and the store accepting the insert, it
  succeeds, shows the all-zero breakdown and stores a calculation for it.
\<close>

theorem calculateWages_refusals:
  "(wm_selectedEmployee ui = [] \<or> wm_startDate ui = [] \<or> wm_endDate ui = []
      \<longrightarrow> calculateWages env ui st = (PleaseSelectEmployeeAndDateRange, ui, st))
   \<and> (wm_selectedEmployee ui \<noteq> [] \<and> wm_startDate ui \<noteq> [] \<and> wm_endDate ui \<noteq> []
        \<and> single (filter (\<lambda>e. e_id e = wm_selectedEmployee ui) (employees st)) = None
      \<longrightarrow> calculateWages env ui st = (EmployeeNotFound, ui, st))
   \<and> (wm_selectedEmployee ui \<noteq> [] \<and> wm_startDate ui \<noteq> [] \<and> wm_endDate ui \<noteq> []
        \<and> wm_endDate ui < wm_startDate ui
        \<and> cw_employee_query_ok env \<and> cw_attendance_query_ok env \<and> cw_insert_ok env
        \<and> single (filter (\<lambda>e. e_id e = wm_selectedEmployee ui) (employees st)) = Some emp
        \<and> cw_new_id env \<notin> set (map w_id (wage_calculations st))
      \<longrightarrow> fst (calculateWages env ui st) = WageCalculationCompleted
          \<and> wm_breakdown (fst (snd (calculateWages env ui st))) = Some zero_breakdown
          \<and> wage_calculations (snd (snd (calculateWages env ui st)))
              = wage_calculations st @ [wageCalculation_of env ui zero_breakdown])"
proof -
  have a: "calculateWages env ui st = (PleaseSelectEmployeeAndDateRange, ui, st)"
    if "wm_selectedEmployee ui = [] \<or> wm_startDate ui = [] \<or> wm_endDate ui = []"
    using that by (simp add: calculateWages_def)
  have b: "calculateWages env ui st = (EmployeeNotFound, ui, st)"
    if "wm_selectedEmployee ui \<noteq> []" "wm_startDate ui \<noteq> []" "wm_endDate ui \<noteq> []"
       "single (filter (\<lambda>e. e_id e = wm_selectedEmployee ui) (employees st)) = None"
    using that by (simp add: calculateWages_def)
  have c: "fst (calculateWages env ui st) = WageCalculationCompleted
          \<and> wm_breakdown (fst (snd (calculateWages env ui st))) = Some zero_breakdown
          \<and> wage_calculations (snd (snd (calculateWages env ui st)))
              = wage_calculations st @ [wageCalculation_of env ui zero_breakdown]"
    if h: "wm_selectedEmployee ui \<noteq> []" "wm_startDate ui \<noteq> []" "wm_endDate ui \<noteq> []"
        "cw_employee_query_ok env" "cw_attendance_query_ok env" "cw_insert_ok env"
        "single (filter (\<lambda>e. e_id e = wm_selectedEmployee ui) (employees st)) = Some emp"
        "cw_new_id env \<notin> set (map w_id (wage_calculations st))"
      and inv: "wm_endDate ui < wm_startDate ui"
  proof -
    have "calculateWages env ui st =
           (WageCalculationCompleted,
            fetchCalculations (cw_reload_ok env) (ui\<lparr>wm_breakdown := Some zero_breakdown\<rparr>)
              (st\<lparr>wage_calculations := wage_calculations st @ [wageCalculation_of env ui zero_breakdown]\<rparr>),
            st\<lparr>wage_calculations := wage_calculations st @ [wageCalculation_of env ui zero_breakdown]\<rparr>)"
      by (rule calculateWages_completed [OF h])
         (simp_all add: inverted_range_empty [OF inv] computeBreakdown_double_Nil)
    then show ?thesis by simp
  qed
  show ?thesis
    using a b c by blast
qed

text \<open>
  The claim as stated fails: for the range from 2025-01-10 to 2025-01-06 the run reports
  success and a second calculation is stored.
\<close>

theorem inverted_range_accepted:
  "wm_endDate (ex_wages ''e1'' ''2025-01-10'' ''2025-01-06'')
     < wm_startDate (ex_wages ''e1'' ''2025-01-10'' ''2025-01-06'')
   \<and> fst (calculateWages ex_calc_env (ex_wages ''e1'' ''2025-01-10'' ''2025-01-06'') ex_store)
       = WageCalculationCompleted
   \<and> map w_id (wage_calculations (snd (snd (calculateWages ex_calc_env
         (ex_wages ''e1'' ''2025-01-10'' ''2025-01-06'') ex_store)))) = [''c1'', ''c2'']"
  by (simp add: calculateWages_def Let_def ex_wages_def ex_calc_env_def ex_store_def
      ex_employee_def ex_calculation_def ex_attendance_def ex_day_def attendance_in_range_def
      single_def insert_wage_calculation_def wageCalculation_of_def fetchCalculations_def)

theorem calculateWages_refusals_witness:
  "calculateWages ex_calc_env (ex_wages ''e1'' ''2025-01-06'' []) ex_store
     = (PleaseSelectEmployeeAndDateRange, ex_wages ''e1'' ''2025-01-06'' [], ex_store)
   \<and> single (filter (\<lambda>e. e_id e = ''e9'') (employees ex_store)) = None
   \<and> calculateWages ex_calc_env (ex_wages ''e9'' ''2025-01-06'' ''2025-01-10'') ex_store
       = (EmployeeNotFound, ex_wages ''e9'' ''2025-01-06'' ''2025-01-10'', ex_store)
   \<and> ''2025-01-06'' < ''2025-01-10''
   \<and> fst (calculateWages ex_calc_env (ex_wages ''e1'' ''2025-01-10'' ''2025-01-06'') ex_store)
       = WageCalculationCompleted
   \<and> wm_breakdown (fst (snd (calculateWages ex_calc_env
         (ex_wages ''e1'' ''2025-01-10'' ''2025-01-06'') ex_store))) = Some zero_breakdown"
proof -
  have e: "single (filter (\<lambda>e. e_id e = ''e1'') (employees ex_store)) = Some ex_employee"
    by (simp add: ex_store_def ex_employee_def single_def)
  have n: "single (filter (\<lambda>e. e_id e = ''e9'') (employees ex_store)) = None"
    by (simp add: ex_store_def ex_employee_def single_def)
  have f: "cw_new_id ex_calc_env \<notin> set (map w_id (wage_calculations ex_store))"
    by (simp add: ex_calc_env_def ex_store_def ex_calculation_def)
  show ?thesis
    using calculateWages_refusals [of "ex_wages ''e1'' ''2025-01-06'' []" ex_calc_env ex_store]
      calculateWages_refusals [of "ex_wages ''e9'' ''2025-01-06'' ''2025-01-10''" ex_calc_env ex_store]
      calculateWages_refusals [of "ex_wages ''e1'' ''2025-01-10'' ''2025-01-06''" ex_calc_env
        ex_store ex_employee] e n f
    by (simp add: ex_wages_def ex_calc_env_def)
qed

section \<open>Runs of markAsPaid\<close>

lemma insert_payment_Some:
  "insert_payment ok p st = Some st' \<Longrightarrow>
     st' = st\<lparr>payments := payments st @ [p]\<rparr>
     \<and> wage_calculation_id p \<in> set (map w_id (wage_calculations st))"
  by (auto simp: insert_payment_def split: if_splits)

lemma set_paid_simps [simp]:
  "payments (set_paid cid now st) = payments st"
  "employees (set_paid cid now st) = employees st"
  by (simp_all add: set_paid_def)

lemma set_paid_rows:
  "wage_calculations (set_paid cid now st) =
     map (\<lambda>c. if w_id c = cid then c\<lparr>is_paid := True, w_updated_at := now\<rparr> else c)
       (wage_calculations st)"
  by (simp add: set_paid_def)

lemma set_paid_ids [simp]:
  "map w_id (wage_calculations (set_paid cid now st)) = map w_id (wage_calculations st)"
  by (induction "wage_calculations st") (simp_all add: set_paid_def comp_def)

lemma fetchCalculations_rows:
  "set (wm_calculations (fetchCalculations True ui st)) \<subseteq> set (wage_calculations st)"
proof -
  have "set (take 20 xs) \<subseteq> set xs" for xs :: "wage_calculation list"
    by (rule set_take_subset)
  then show ?thesis
    by (force simp: fetchCalculations_def)
qed

text \<open>What a run that reports success has done, when the calculation is on screen.\<close>

lemma markAsPaid_success_cases:
  assumes "find (\<lambda>c. w_id c = cid) (wm_calculations ui) = Some c"
    and "markAsPaid env cid ui st = (Some MarkedAsPaid, ui', st')"
  shows "st' = (set_paid cid (mp_now_update env) st)
                 \<lparr>payments := payments st @ [payment_for env cid c]\<rparr>
         \<and> ui' = fetchCalculations (mp_reload_ok env) ui st'
         \<and> cid \<in> set (map w_id (wage_calculations st))"
proof -
  from assms obtain st2 where
    ins: "insert_payment (mp_insert_ok env) (payment_for env cid c)
            (set_paid cid (mp_now_update env) st) = Some st2"
    and res: "st' = st2" "ui' = fetchCalculations (mp_reload_ok env) ui st2"
    by (auto simp: markAsPaid_def Let_def split: if_splits option.splits)
  from insert_payment_Some [OF ins] have
    "st2 = (set_paid cid (mp_now_update env) st)\<lparr>payments := payments st @ [payment_for env cid c]\<rparr>"
    "wage_calculation_id (payment_for env cid c) \<in> set (map w_id (wage_calculations st))"
    by simp_all
  then show ?thesis
    using res by (simp add: payment_for_def)
qed


lemma ex_find:
  "find (\<lambda>c. w_id c = ''c1'') (wm_calculations (ex_wages ''e1'' ''2025-01-06'' ''2025-01-10''))
     = Some ex_calculation"
  by (simp add: ex_wages_def ex_calculation_def)

lemma ex_markAsPaid:
  "markAsPaid (ex_mark_env True r pid) ''c1'' (ex_wages ''e1'' ''2025-01-06'' ''2025-01-10'') ex_store
     = (Some MarkedAsPaid,
        fetchCalculations r (ex_wages ''e1'' ''2025-01-06'' ''2025-01-10'')
          ((set_paid ''c1'' ''2025-01-12T10:00:00.000Z'' ex_store)
             \<lparr>payments := [payment_for (ex_mark_env True r pid) ''c1'' ex_calculation]\<rparr>),
        (set_paid ''c1'' ''2025-01-12T10:00:00.000Z'' ex_store)
          \<lparr>payments := [payment_for (ex_mark_env True r pid) ''c1'' ex_calculation]\<rparr>)"
  by (simp add: markAsPaid_def Let_def ex_find insert_payment_def)
     (simp add: ex_mark_env_def ex_store_def ex_employee_def ex_calculation_def payment_for_def
       set_paid_def)

text \<open>
  C4. A run of \<^verbatim>\<open>markAsPaid\<close> that reports success for a calculation of the list on screen
  has set \<^verbatim>\<open>is_paid\<close> (and the update timestamp) on the stored calculation with that id,
  which exists, and has added exactly one payment: for that calculation and its employee,
  with the net amount of the calculation as the list holds it, copied and not computed
  again, and dated with the date of the client's clock at the insertion.
\<close>

theorem markAsPaid_pays_net_amount:
  assumes "find (\<lambda>c. w_id c = cid) (wm_calculations ui) = Some c"
    and "markAsPaid env cid ui st = (Some MarkedAsPaid, ui', st')"
  shows "wage_calculations st' =
           map (\<lambda>w. if w_id w = cid then w\<lparr>is_paid := True, w_updated_at := mp_now_update env\<rparr>
                     else w) (wage_calculations st)
         \<and> (\<exists>w \<in> set (wage_calculations st'). w_id w = cid \<and> is_paid w)
         \<and> (\<exists>p. payments st' = payments st @ [p]
                \<and> wage_calculation_id p = cid
                \<and> p_employee_id p = w_employee_id c
                \<and> amount p = net_amount c
                \<and> payment_date p = iso_date (mp_now_insert env))"
proof -
  from markAsPaid_success_cases [OF assms] have
    st': "st' = (set_paid cid (mp_now_update env) st)
                  \<lparr>payments := payments st @ [payment_for env cid c]\<rparr>"
    and ex: "cid \<in> set (map w_id (wage_calculations st))"
    by simp_all
  have rows: "wage_calculations st' =
           map (\<lambda>w. if w_id w = cid then w\<lparr>is_paid := True, w_updated_at := mp_now_update env\<rparr>
                     else w) (wage_calculations st)"
    by (simp add: st' set_paid_rows)
  from ex obtain w where w: "w \<in> set (wage_calculations st)" "w_id w = cid"
    by auto
  then have "w\<lparr>is_paid := True, w_updated_at := mp_now_update env\<rparr> \<in> set (wage_calculations st')"
    unfolding rows by force
  then have paid: "\<exists>w \<in> set (wage_calculations st'). w_id w = cid \<and> is_paid w"
    using w(2) by (intro bexI [of _ "w\<lparr>is_paid := True, w_updated_at := mp_now_update env\<rparr>"]) simp_all
  have pay: "\<exists>p. payments st' = payments st @ [p]
                \<and> wage_calculation_id p = cid
                \<and> p_employee_id p = w_employee_id c
                \<and> amount p = net_amount c
                \<and> payment_date p = iso_date (mp_now_insert env)"
    by (simp add: st' payment_for_def)
  from rows paid pay show ?thesis by blast
qed

theorem markAsPaid_pays_net_amount_witness:
  "map is_paid (wage_calculations (snd (snd (markAsPaid (ex_mark_env True True ''p1'') ''c1''
       (ex_wages ''e1'' ''2025-01-06'' ''2025-01-10'') ex_store)))) = [True]
   \<and> map amount (payments (snd (snd (markAsPaid (ex_mark_env True True ''p1'') ''c1''
       (ex_wages ''e1'' ''2025-01-06'' ''2025-01-10'') ex_store)))) = [360]
   \<and> map payment_date (payments (snd (snd (markAsPaid (ex_mark_env True True ''p1'') ''c1''
       (ex_wages ''e1'' ''2025-01-06'' ''2025-01-10'') ex_store)))) = [''2025-01-12'']"
  using markAsPaid_pays_net_amount [OF ex_find ex_markAsPaid [of True "''p1''"]]
  unfolding ex_markAsPaid
  by (simp add: set_paid_rows ex_store_def ex_calculation_def payment_for_def
      ex_mark_env_def iso_date_def)

text \<open>
  C10. Whatever the inputs, a run of \<^verbatim>\<open>markAsPaid\<close> leaves the payments as they were or adds
  exactly one, for the calculation found on screen, whose method is cash, whose date is the
  part before the \<^verbatim>\<open>T\<close> of the client's ISO timestamp at the insertion (the current date), and
  whose notes are the generated summary: the word for the period type, then the start and the
  end of the period. The function takes the calculation's id and nothing else: no method,
  date or notes of a caller reach the payment.
\<close>

theorem markAsPaid_payment_fixed_fields:
  "payments (snd (snd (markAsPaid env cid ui st))) = payments st
   \<or> (\<exists>c p. find (\<lambda>c. w_id c = cid) (wm_calculations ui) = Some c
          \<and> payments (snd (snd (markAsPaid env cid ui st))) = payments st @ [p]
          \<and> p_payment_method p = Some Cash
          \<and> payment_date p = takeWhile (\<lambda>ch. ch \<noteq> CHR ''T'') (mp_now_insert env)
          \<and> p_notes p =
              Some (''Payment for ''
                    @ (case w_period_type c of
                         Daily \<Rightarrow> ''daily'' | Weekly \<Rightarrow> ''weekly'' | Monthly \<Rightarrow> ''monthly'')
                    @ '' period: '' @ period_start c @ '' to '' @ period_end c))"
proof (cases "mp_confirm env \<and> mp_update_ok env")
  case False
  then show ?thesis by (auto simp: markAsPaid_def)
next
  case True
  show ?thesis
  proof (cases "find (\<lambda>c. w_id c = cid) (wm_calculations ui)")
    case None
    with True show ?thesis by (simp add: markAsPaid_def Let_def)
  next
    case (Some c)
    show ?thesis
    proof (cases "insert_payment (mp_insert_ok env) (payment_for env cid c)
                    (set_paid cid (mp_now_update env) st)")
      case None
      with True Some show ?thesis by (simp add: markAsPaid_def Let_def)
    next
      case (Some st2)
      from insert_payment_Some [OF this] have
        "payments st2 = payments st @ [payment_for env cid c]" by simp
      with True \<open>find (\<lambda>c. w_id c = cid) (wm_calculations ui) = Some c\<close> Some
      show ?thesis
        by (simp add: markAsPaid_def Let_def payment_for_def iso_date_def period_type_str_def)
    qed
  qed
qed

lemma ex_markAsPaid_monthly:
  "markAsPaid (ex_mark_env True r pid) ''c3'' ex_wages_monthly ex_store_monthly
     = (Some MarkedAsPaid,
        fetchCalculations r ex_wages_monthly
          ((set_paid ''c3'' ''2025-01-12T10:00:00.000Z'' ex_store_monthly)
             \<lparr>payments := [payment_for (ex_mark_env True r pid) ''c3'' ex_monthly]\<rparr>),
        (set_paid ''c3'' ''2025-01-12T10:00:00.000Z'' ex_store_monthly)
          \<lparr>payments := [payment_for (ex_mark_env True r pid) ''c3'' ex_monthly]\<rparr>)"
proof -
  have f: "find (\<lambda>c. w_id c = ''c3'') (wm_calculations ex_wages_monthly) = Some ex_monthly"
    by (simp add: ex_wages_monthly_def ex_monthly_def ex_calculation_def)
  show ?thesis
    by (simp add: markAsPaid_def Let_def f insert_payment_def)
       (simp add: ex_mark_env_def ex_store_monthly_def ex_store_def ex_employee_def
         ex_monthly_def ex_calculation_def payment_for_def set_paid_def)
qed

theorem markAsPaid_payment_fixed_fields_witness:
  "map p_payment_method (payments (snd (snd (markAsPaid (ex_mark_env True False ''p1'') ''c3''
       ex_wages_monthly ex_store_monthly)))) = [Some Cash]
   \<and> map payment_date (payments (snd (snd (markAsPaid (ex_mark_env True False ''p1'') ''c3''
       ex_wages_monthly ex_store_monthly)))) = [''2025-01-12'']
   \<and> map p_notes (payments (snd (snd (markAsPaid (ex_mark_env True False ''p1'') ''c3''
       ex_wages_monthly ex_store_monthly))))
      = [Some ''Payment for monthly period: 2025-01-01 to 2025-01-31'']
   \<and> map p_notes (payments (snd (snd (markAsPaid (ex_mark_env True False ''p1'') ''c1''
       (ex_wages ''e1'' ''2025-01-06'' ''2025-01-10'') ex_store))))
      = [Some ''Payment for weekly period: 2025-01-06 to 2025-01-10'']
   \<and> payments ex_store_monthly = []"
proof -
  have m: "payments ex_store_monthly = []"
    by (simp add: ex_store_monthly_def ex_store_def)
  have clock: "mp_now_insert (ex_mark_env True False ''p1'') = ''2025-01-12T10:00:01.000Z''"
    by (simp add: ex_mark_env_def)
  have fm: "find (\<lambda>c. w_id c = ''c3'') (wm_calculations ex_wages_monthly) = Some ex_monthly"
    by (simp add: ex_wages_monthly_def ex_monthly_def ex_calculation_def)
  have pm: "w_period_type ex_monthly = Monthly" "period_start ex_monthly = ''2025-01-01''"
    "period_end ex_monthly = ''2025-01-31''"
    by (simp_all add: ex_monthly_def)
  have pw: "w_period_type ex_calculation = Weekly" "period_start ex_calculation = ''2025-01-06''"
    "period_end ex_calculation = ''2025-01-10''"
    by (simp_all add: ex_calculation_def)
  have added: "payments (snd (snd (markAsPaid (ex_mark_env True False ''p1'') ''c3''
       ex_wages_monthly ex_store_monthly))) \<noteq> payments ex_store_monthly"
    unfolding ex_markAsPaid_monthly by (simp add: m)
  have added_w: "payments (snd (snd (markAsPaid (ex_mark_env True False ''p1'') ''c1''
       (ex_wages ''e1'' ''2025-01-06'' ''2025-01-10'') ex_store))) \<noteq> payments ex_store"
    unfolding ex_markAsPaid by (simp add: ex_store_def)
  from markAsPaid_payment_fixed_fields [of "ex_mark_env True False ''p1''" "''c3''"
      ex_wages_monthly ex_store_monthly] added
  have month: "map p_payment_method (payments (snd (snd (markAsPaid (ex_mark_env True False ''p1'') ''c3''
       ex_wages_monthly ex_store_monthly)))) = [Some Cash]
   \<and> map payment_date (payments (snd (snd (markAsPaid (ex_mark_env True False ''p1'') ''c3''
       ex_wages_monthly ex_store_monthly)))) = [''2025-01-12'']
   \<and> map p_notes (payments (snd (snd (markAsPaid (ex_mark_env True False ''p1'') ''c3''
       ex_wages_monthly ex_store_monthly))))
      = [Some ''Payment for monthly period: 2025-01-01 to 2025-01-31'']"
    by (auto simp: fm pm clock m)
  from markAsPaid_payment_fixed_fields [of "ex_mark_env True False ''p1''" "''c1''"
      "ex_wages ''e1'' ''2025-01-06'' ''2025-01-10''" ex_store] added_w
  have week: "map p_notes (payments (snd (snd (markAsPaid (ex_mark_env True False ''p1'') ''c1''
       (ex_wages ''e1'' ''2025-01-06'' ''2025-01-10'') ex_store))))
      = [Some ''Payment for weekly period: 2025-01-06 to 2025-01-10'']"
    by (auto simp: ex_find pw ex_store_def)
  from month week m show ?thesis by simp
qed

lemma markAsPaid_succeeds:
  assumes "mp_confirm env" "mp_update_ok env" "mp_insert_ok env"
    and "find (\<lambda>c. w_id c = cid) (wm_calculations ui) = Some c"
    and "mp_new_id env \<notin> set (map p_id (payments st))"
    and "cid \<in> set (map w_id (wage_calculations st))"
    and "w_employee_id c \<in> set (map e_id (employees st))"
    and "st2 = (set_paid cid (mp_now_update env) st)
                 \<lparr>payments := payments st @ [payment_for env cid c]\<rparr>"
  shows "markAsPaid env cid ui st =
           (Some MarkedAsPaid, fetchCalculations (mp_reload_ok env) ui st2, st2)"
proof -
  have "insert_payment (mp_insert_ok env) (payment_for env cid c)
          (set_paid cid (mp_now_update env) st) = Some st2"
    using assms(3,5,6,7,8) by (simp add: insert_payment_def payment_for_def)
  then show ?thesis
    using assms(1,2,4) by (simp add: markAsPaid_def Let_def)
qed

lemma payments_of_append [simp]:
  "payments_of cid (st\<lparr>payments := ps @ [p]\<rparr>) =
     filter (\<lambda>p. wage_calculation_id p = cid) ps
       @ (if wage_calculation_id p = cid then [p] else [])"
  by (simp add: payments_of_def)

lemma payment_for_cid [simp]: "wage_calculation_id (payment_for env cid c) = cid"
  by (simp add: payment_for_def)

lemma payment_for_employee [simp]: "p_employee_id (payment_for env cid c) = w_employee_id c"
  by (simp add: payment_for_def)




lemma set_paid_is_paid:
  assumes "w \<in> set (wage_calculations (set_paid cid now st))" and "w_id w = cid"
  shows "is_paid w"
proof -
  from assms(1) have "w \<in> (\<lambda>c. if w_id c = cid then c\<lparr>is_paid := True, w_updated_at := now\<rparr> else c)
                        ` set (wage_calculations st)"
    by (simp add: set_paid_rows)
  then obtain x where x: "x \<in> set (wage_calculations st)"
    and w: "w = (if w_id x = cid then x\<lparr>is_paid := True, w_updated_at := now\<rparr> else x)"
    by (rule imageE)
  show ?thesis
  proof (cases "w_id x = cid")
    case True
    with w show ?thesis by simp
  next
    case False
    with w assms(2) show ?thesis by simp
  qed
qed



lemma markAsPaid_success_rows:
  assumes "markAsPaid env cid ui st = (Some MarkedAsPaid, ui', st')"
  shows "ui' = fetchCalculations (mp_reload_ok env) ui st'
         \<and> wage_calculations st' = wage_calculations (set_paid cid (mp_now_update env) st)"
proof (cases "find (\<lambda>c. w_id c = cid) (wm_calculations ui)")
  case None
  with assms show ?thesis
    by (auto simp: markAsPaid_def Let_def split: if_splits)
next
  case (Some c)
  from markAsPaid_success_cases [OF Some assms] show ?thesis
    by (simp add: set_paid_def)
qed




lemma markAsPaid_hides_action:
  assumes r1: "markAsPaid env cid ui st = (Some MarkedAsPaid, ui1, st1)" and rl: "mp_reload_ok env"
  shows "\<not> mark_offered ui1 cid"
proof
  assume "mark_offered ui1 cid"
  then obtain w where w: "w \<in> set (wm_calculations ui1)" "w_id w = cid" "\<not> is_paid w"
    unfolding mark_offered_def by blast
  from markAsPaid_success_rows [OF r1] have ui1: "ui1 = fetchCalculations (mp_reload_ok env) ui st1"
    and rows: "wage_calculations st1 = wage_calculations (set_paid cid (mp_now_update env) st)"
    by simp_all
  have "set (wm_calculations ui1) \<subseteq> set (wage_calculations st1)"
    using fetchCalculations_rows [of ui st1] rl by (simp add: ui1)
  with w(1) have "w \<in> set (wage_calculations (set_paid cid (mp_now_update env) st))"
    unfolding rows by (rule subsetD [rotated])
  from set_paid_is_paid [OF this w(2)] w(3) show False
    by simp
qed



lemma markAsPaid_second_payment:
  assumes f: "find (\<lambda>c. w_id c = cid) (wm_calculations ui) = Some c"
      and r1: "markAsPaid env1 cid ui st = (Some MarkedAsPaid, ui1, st1)"
      and f1: "find (\<lambda>c. w_id c = cid) (wm_calculations ui1) = Some c1"
      and ok: "mp_confirm env2" "mp_update_ok env2" "mp_insert_ok env2"
      and fresh: "mp_new_id env2 \<notin> set (map p_id (payments st1))"
      and fk: "w_employee_id c1 \<in> set (map e_id (employees st1))"
  shows "fst (markAsPaid env2 cid ui1 st1) = Some MarkedAsPaid
        \<and> length (payments_of cid (snd (snd (markAsPaid env2 cid ui1 st1))))
            = length (payments_of cid st) + 2"
proof -
  from markAsPaid_success_cases [OF f r1] have
    st1: "st1 = (set_paid cid (mp_now_update env1) st)
                  \<lparr>payments := payments st @ [payment_for env1 cid c]\<rparr>"
    and ex: "cid \<in> set (map w_id (wage_calculations st))"
    by simp_all
  have p1: "payments st1 = payments st @ [payment_for env1 cid c]"
    by (simp add: st1)
  have "map w_id (wage_calculations st1) = map w_id (wage_calculations st)"
    using set_paid_ids [of cid "mp_now_update env1" st] by (simp add: st1)
  with ex have ex1: "cid \<in> set (map w_id (wage_calculations st1))"
    by simp
  define st2 where "st2 = (set_paid cid (mp_now_update env2) st1)
               \<lparr>payments := payments st1 @ [payment_for env2 cid c1]\<rparr>"
  have run: "markAsPaid env2 cid ui1 st1 =
          (Some MarkedAsPaid, fetchCalculations (mp_reload_ok env2) ui1 st2, st2)"
    by (rule markAsPaid_succeeds [OF ok f1 fresh ex1 fk st2_def])
  have "payments st2 = payments st @ [payment_for env1 cid c, payment_for env2 cid c1]"
    by (simp add: st2_def p1)
  then have "length (payments_of cid st2) = length (payments_of cid st) + 2"
    by (simp add: payments_of_def)
  with run show ?thesis by simp
qed

text \<open>
  C2, as amended. \<^verbatim>\<open>markAsPaid\<close> does not reject a repeat: after a run that reported success
  for a calculation, a second confirmed run for the same calculation, still in the list on
  screen and with its writes accepted by the store, reports success again and adds a second
  payment. The only guard is the table's: once a successful run has reloaded the list, the
  action is no longer offered for that calculation.
\<close>

theorem markAsPaid_repeat:
  "(find (\<lambda>c. w_id c = cid) (wm_calculations ui) = Some c
      \<and> markAsPaid env1 cid ui st = (Some MarkedAsPaid, ui1, st1)
      \<and> find (\<lambda>c. w_id c = cid) (wm_calculations ui1) = Some c1
      \<and> mp_confirm env2 \<and> mp_update_ok env2 \<and> mp_insert_ok env2
      \<and> mp_new_id env2 \<notin> set (map p_id (payments st1))
      \<and> w_employee_id c1 \<in> set (map e_id (employees st1))
    \<longrightarrow> fst (markAsPaid env2 cid ui1 st1) = Some MarkedAsPaid
        \<and> length (payments_of cid (snd (snd (markAsPaid env2 cid ui1 st1))))
            = length (payments_of cid st) + 2)
   \<and> (markAsPaid env1 cid ui st = (Some MarkedAsPaid, ui1, st1) \<and> mp_reload_ok env1
    \<longrightarrow> \<not> mark_offered ui1 cid)"
proof (rule conjI; rule impI; elim conjE)
  assume "find (\<lambda>c. w_id c = cid) (wm_calculations ui) = Some c"
    "markAsPaid env1 cid ui st = (Some MarkedAsPaid, ui1, st1)"
    "find (\<lambda>c. w_id c = cid) (wm_calculations ui1) = Some c1"
    "mp_confirm env2" "mp_update_ok env2" "mp_insert_ok env2"
    "mp_new_id env2 \<notin> set (map p_id (payments st1))"
    "w_employee_id c1 \<in> set (map e_id (employees st1))"
  then show "fst (markAsPaid env2 cid ui1 st1) = Some MarkedAsPaid
        \<and> length (payments_of cid (snd (snd (markAsPaid env2 cid ui1 st1))))
            = length (payments_of cid st) + 2"
    by (rule markAsPaid_second_payment)
next
  assume "markAsPaid env1 cid ui st = (Some MarkedAsPaid, ui1, st1)" "mp_reload_ok env1"
  then show "\<not> mark_offered ui1 cid"
    by (rule markAsPaid_hides_action)
qed


text \<open>
  The claim as stated fails: with the reload after the first run failing, the list still
  offers the action, and a second run adds a second payment for the same calculation.
\<close>

theorem markAsPaid_twice_two_payments:
  "fst (markAsPaid (ex_mark_env True False ''p1'') ''c1''
          (ex_wages ''e1'' ''2025-01-06'' ''2025-01-10'') ex_store) = Some MarkedAsPaid
   \<and> mark_offered (fst (snd (markAsPaid (ex_mark_env True False ''p1'') ''c1''
          (ex_wages ''e1'' ''2025-01-06'' ''2025-01-10'') ex_store))) ''c1''
   \<and> fst (markAsPaid_twice (ex_mark_env True False ''p1'') (ex_mark_env True False ''p2'') ''c1''
          (ex_wages ''e1'' ''2025-01-06'' ''2025-01-10'') ex_store) = Some MarkedAsPaid
   \<and> map p_id (payments_of ''c1'' (snd (snd (markAsPaid_twice (ex_mark_env True False ''p1'')
          (ex_mark_env True False ''p2'') ''c1''
          (ex_wages ''e1'' ''2025-01-06'' ''2025-01-10'') ex_store)))) = [''p1'', ''p2'']"
proof -
  let ?ui = "ex_wages ''e1'' ''2025-01-06'' ''2025-01-10''"
  let ?st1 = "(set_paid ''c1'' ''2025-01-12T10:00:00.000Z'' ex_store)
          \<lparr>payments := [payment_for (ex_mark_env True False ''p1'') ''c1'' ex_calculation]\<rparr>"
  have second: "markAsPaid (ex_mark_env True False ''p2'') ''c1'' ?ui ?st1 =
      (Some MarkedAsPaid,
       fetchCalculations False ?ui
         ((set_paid ''c1'' ''2025-01-12T10:00:00.000Z'' ?st1)
            \<lparr>payments := payments ?st1 @ [payment_for (ex_mark_env True False ''p2'') ''c1'' ex_calculation]\<rparr>),
       (set_paid ''c1'' ''2025-01-12T10:00:00.000Z'' ?st1)
         \<lparr>payments := payments ?st1 @ [payment_for (ex_mark_env True False ''p2'') ''c1'' ex_calculation]\<rparr>)"
    by (simp add: markAsPaid_def Let_def ex_find insert_payment_def)
       (simp add: ex_mark_env_def ex_store_def ex_employee_def ex_calculation_def payment_for_def
         set_paid_def)
  have offered: "mark_offered (fetchCalculations False ?ui ?st1) ''c1''"
    by (simp add: mark_offered_def fetchCalculations_def ex_wages_def ex_calculation_def)
  show ?thesis
    unfolding markAsPaid_twice_def ex_markAsPaid
    using offered
    by (simp add: fetchCalculations_def second)
       (simp add: payments_of_def payment_for_def ex_mark_env_def)
qed

theorem markAsPaid_repeat_witness:
  "fst (markAsPaid (ex_mark_env True False ''p2'') ''c1''
          (fst (snd (markAsPaid (ex_mark_env True False ''p1'') ''c1''
             (ex_wages ''e1'' ''2025-01-06'' ''2025-01-10'') ex_store)))
          (snd (snd (markAsPaid (ex_mark_env True False ''p1'') ''c1''
             (ex_wages ''e1'' ''2025-01-06'' ''2025-01-10'') ex_store)))) = Some MarkedAsPaid
   \<and> length (payments_of ''c1'' (snd (snd (markAsPaid (ex_mark_env True False ''p2'') ''c1''
          (fst (snd (markAsPaid (ex_mark_env True False ''p1'') ''c1''
             (ex_wages ''e1'' ''2025-01-06'' ''2025-01-10'') ex_store)))
          (snd (snd (markAsPaid (ex_mark_env True False ''p1'') ''c1''
             (ex_wages ''e1'' ''2025-01-06'' ''2025-01-10'') ex_store)))))))
       = length (payments_of ''c1'' ex_store) + 2
   \<and> \<not> mark_offered (fst (snd (markAsPaid (ex_mark_env True True ''p1'') ''c1''
          (ex_wages ''e1'' ''2025-01-06'' ''2025-01-10'') ex_store))) ''c1''"
proof -
  let ?ui = "ex_wages ''e1'' ''2025-01-06'' ''2025-01-10''"
  let ?st1 = "(set_paid ''c1'' ''2025-01-12T10:00:00.000Z'' ex_store)
          \<lparr>payments := [payment_for (ex_mark_env True False ''p1'') ''c1'' ex_calculation]\<rparr>"
  have a: "fst (markAsPaid (ex_mark_env True False ''p2'') ''c1'' (fetchCalculations False ?ui ?st1) ?st1)
             = Some MarkedAsPaid
        \<and> length (payments_of ''c1'' (snd (snd (markAsPaid (ex_mark_env True False ''p2'') ''c1''
             (fetchCalculations False ?ui ?st1) ?st1))))
           = length (payments_of ''c1'' ex_store) + 2"
    using markAsPaid_repeat [of "''c1''" ?ui ex_calculation "ex_mark_env True False ''p1''" ex_store
        "fetchCalculations False ?ui ?st1" ?st1 ex_calculation "ex_mark_env True False ''p2''"]
      ex_find ex_markAsPaid [of False "''p1''"]
    by (simp add: fetchCalculations_def)
       (simp add: ex_mark_env_def payment_for_def ex_store_def ex_employee_def ex_calculation_def)
  have b: "\<not> mark_offered (fetchCalculations True ?ui
              ((set_paid ''c1'' ''2025-01-12T10:00:00.000Z'' ex_store)
                \<lparr>payments := [payment_for (ex_mark_env True True ''p1'') ''c1'' ex_calculation]\<rparr>)) ''c1''"
    using markAsPaid_repeat [of "''c1''" ?ui ex_calculation "ex_mark_env True True ''p1''" ex_store
        "fetchCalculations True ?ui
              ((set_paid ''c1'' ''2025-01-12T10:00:00.000Z'' ex_store)
                \<lparr>payments := [payment_for (ex_mark_env True True ''p1'') ''c1'' ex_calculation]\<rparr>)"
        "(set_paid ''c1'' ''2025-01-12T10:00:00.000Z'' ex_store)
                \<lparr>payments := [payment_for (ex_mark_env True True ''p1'') ''c1'' ex_calculation]\<rparr>"]
      ex_markAsPaid [of True "''p1''"]
    by (simp add: ex_mark_env_def)
  from a b show ?thesis
    unfolding ex_markAsPaid by simp
qed

text \<open>
  C3, as amended. The two writes of \<^verbatim>\<open>markAsPaid\<close> are separate requests, the flag first. When
  the first fails, the error is reported and nothing has changed. When the insertion of the
  payment fails after the flag was set, the error is reported, no payment exists, and the
  flag stays set: nothing rolls it back.
\<close>

theorem markAsPaid_write_failures:
  "(mp_confirm env \<and> \<not> mp_update_ok env
    \<longrightarrow> markAsPaid env cid ui st = (Some ErrorMarkingAsPaid, ui, st))
   \<and> (mp_confirm env \<and> mp_update_ok env \<and> \<not> mp_insert_ok env
        \<and> find (\<lambda>c. w_id c = cid) (wm_calculations ui) = Some c
    \<longrightarrow> fst (markAsPaid env cid ui st) = Some ErrorMarkingAsPaid
        \<and> payments (snd (snd (markAsPaid env cid ui st))) = payments st
        \<and> wage_calculations (snd (snd (markAsPaid env cid ui st))) =
            map (\<lambda>w. if w_id w = cid then w\<lparr>is_paid := True, w_updated_at := mp_now_update env\<rparr>
                      else w) (wage_calculations st))"
  by (simp add: markAsPaid_def Let_def insert_payment_def set_paid_rows)

lemma ex_markAsPaid_insert_fails:
  "markAsPaid (ex_mark_env False r pid) ''c1'' (ex_wages ''e1'' ''2025-01-06'' ''2025-01-10'') ex_store
     = (Some ErrorMarkingAsPaid, ex_wages ''e1'' ''2025-01-06'' ''2025-01-10'',
        set_paid ''c1'' ''2025-01-12T10:00:00.000Z'' ex_store)"
proof -
  have "insert_payment (mp_insert_ok (ex_mark_env False r pid)) p st = None" for p st
    by (simp add: insert_payment_def ex_mark_env_def)
  moreover have "mp_confirm (ex_mark_env False r pid)" "mp_update_ok (ex_mark_env False r pid)"
    "mp_now_update (ex_mark_env False r pid) = ''2025-01-12T10:00:00.000Z''"
    by (simp_all add: ex_mark_env_def)
  ultimately show ?thesis
    by (simp add: markAsPaid_def Let_def ex_find)
qed

text \<open>
  The claim as stated fails: when the store accepts the update and rejects the insertion,
  the run ends with the error message, the calculation is stored as paid, and it has no
  payment.
\<close>

theorem paid_without_payment:
  "fst (markAsPaid (ex_mark_env False True ''p1'') ''c1''
          (ex_wages ''e1'' ''2025-01-06'' ''2025-01-10'') ex_store) = Some ErrorMarkingAsPaid
   \<and> map is_paid (wage_calculations ex_store) = [False]
   \<and> map is_paid (wage_calculations (snd (snd (markAsPaid (ex_mark_env False True ''p1'') ''c1''
          (ex_wages ''e1'' ''2025-01-06'' ''2025-01-10'') ex_store)))) = [True]
   \<and> payments_of ''c1'' (snd (snd (markAsPaid (ex_mark_env False True ''p1'') ''c1''
          (ex_wages ''e1'' ''2025-01-06'' ''2025-01-10'') ex_store))) = []"
  unfolding ex_markAsPaid_insert_fails
  by (simp add: payments_of_def set_paid_rows) (simp add: ex_store_def ex_calculation_def)

theorem markAsPaid_write_failures_witness:
  "markAsPaid ((ex_mark_env True True ''p1'') \<lparr>mp_update_ok := False\<rparr>) ''c1''
       (ex_wages ''e1'' ''2025-01-06'' ''2025-01-10'') ex_store
     = (Some ErrorMarkingAsPaid, ex_wages ''e1'' ''2025-01-06'' ''2025-01-10'', ex_store)
   \<and> fst (markAsPaid (ex_mark_env False True ''p1'') ''c1''
          (ex_wages ''e1'' ''2025-01-06'' ''2025-01-10'') ex_store) = Some ErrorMarkingAsPaid
   \<and> payments (snd (snd (markAsPaid (ex_mark_env False True ''p1'') ''c1''
          (ex_wages ''e1'' ''2025-01-06'' ''2025-01-10'') ex_store))) = []
   \<and> map is_paid (wage_calculations (snd (snd (markAsPaid (ex_mark_env False True ''p1'') ''c1''
          (ex_wages ''e1'' ''2025-01-06'' ''2025-01-10'') ex_store)))) = [True]"
proof -
  have a: "markAsPaid ((ex_mark_env True True ''p1'') \<lparr>mp_update_ok := False\<rparr>) ''c1''
       (ex_wages ''e1'' ''2025-01-06'' ''2025-01-10'') ex_store
     = (Some ErrorMarkingAsPaid, ex_wages ''e1'' ''2025-01-06'' ''2025-01-10'', ex_store)"
    using markAsPaid_write_failures [of "(ex_mark_env True True ''p1'') \<lparr>mp_update_ok := False\<rparr>"
      "''c1''" "ex_wages ''e1'' ''2025-01-06'' ''2025-01-10''" ex_store ex_calculation]
    by (simp add: ex_mark_env_def)
  have b: "fst (markAsPaid (ex_mark_env False True ''p1'') ''c1''
          (ex_wages ''e1'' ''2025-01-06'' ''2025-01-10'') ex_store) = Some ErrorMarkingAsPaid
     \<and> payments (snd (snd (markAsPaid (ex_mark_env False True ''p1'') ''c1''
          (ex_wages ''e1'' ''2025-01-06'' ''2025-01-10'') ex_store))) = payments ex_store
     \<and> wage_calculations (snd (snd (markAsPaid (ex_mark_env False True ''p1'') ''c1''
          (ex_wages ''e1'' ''2025-01-06'' ''2025-01-10'') ex_store))) =
            map (\<lambda>w. if w_id w = ''c1''
                      then w\<lparr>is_paid := True, w_updated_at := mp_now_update (ex_mark_env False True ''p1'')\<rparr>
                      else w) (wage_calculations ex_store)"
    using markAsPaid_write_failures [of "ex_mark_env False True ''p1''"
      "''c1''" "ex_wages ''e1'' ''2025-01-06'' ''2025-01-10''" ex_store ex_calculation] ex_find
    by (simp add: ex_mark_env_def)
  from b have "payments (snd (snd (markAsPaid (ex_mark_env False True ''p1'') ''c1''
          (ex_wages ''e1'' ''2025-01-06'' ''2025-01-10'') ex_store))) = []"
    "map is_paid (wage_calculations (snd (snd (markAsPaid (ex_mark_env False True ''p1'') ''c1''
          (ex_wages ''e1'' ''2025-01-06'' ''2025-01-10'') ex_store)))) = [True]"
    by (simp_all add: ex_store_def ex_calculation_def)
  with a b show ?thesis by simp
qed

section \<open>The payment reports\<close>





lemma summary_of_employee [simp]: "es_employee (summary_of m emp) = emp"
  by (simp add: summary_of_def)





lemma amount_join_payment [simp]: "amount (join_payment st p) = amount p"
  by (simp add: join_payment_def payment.defs)





section \<open>Marking attendance\<close>










end
